theory Spec2Isabelle
  imports Complex_Main "HOL-Library.Sublist"
begin

section \<open>Exceptions (src/churn\_ml/utils/exceptions.py)\<close>

text \<open>
  The traceback object that \<^verbatim>\<open>sys.exc_info()\<close> returns as its third component:
  the constructor of the project's exception reads \<^verbatim>\<open>tb_lineno\<close> and
  \<^verbatim>\<open>tb_frame.f_code.co_filename\<close> from it and nothing else.
\<close>

record traceback =
  tb_lineno :: nat
  co_filename :: string

text \<open>
  The exceptions that travel through the pipeline. \<open>ValueError\<close> is raised by the
  repository's own checks, \<open>KeyError\<close> by indexing a table with a column it does not
  have, \<open>LibraryError\<close> stands for whatever an external collaborator (dataset download,
  CSV parser, store client) raises. \<open>CustomerChurnException\<close> is the class of
  exceptions.py with its three attributes.
\<close>

datatype exn =
    ValueError string
  | KeyError string
  | LibraryError string
  | CustomerChurnException (error_message: exn) (file_name: "string option") (lineno: "nat option")

text \<open>
  \<^verbatim>\<open>CustomerChurnException.__init__(error_message, error_details)\<close>: the second
  argument is the \<^verbatim>\<open>sys\<close> module, of which only \<^verbatim>\<open>exc_info()[2]\<close> is read. It is
  \<open>None\<close> when no exception is being handled.
\<close>

definition new_CustomerChurnException :: "exn \<Rightarrow> traceback option \<Rightarrow> exn" where
  "new_CustomerChurnException e exc_tb =
     (case exc_tb of
        Some tb \<Rightarrow> CustomerChurnException e (Some (co_filename tb)) (Some (tb_lineno tb))
      | None \<Rightarrow> CustomerChurnException e None None)"

section \<open>The ETL class (src/churn\_ml/etl/customer\_churn\_etl.py)\<close>

text \<open>
  Every method of the class has the shape
  \<^verbatim>\<open>try: body  except Exception as e: raise CustomerChurnException(e, sys)\<close>.
  Inside the handler \<^verbatim>\<open>sys.exc_info()[2]\<close> is the traceback of \<^verbatim>\<open>e\<close>; its first
  entry is the frame of the method itself, at the line of the \<^verbatim>\<open>try\<close> body that the
  exception left. A body is therefore modelled with results of type
  \<open>(nat \<times> exn) + 'a\<close>: the exception together with that line.
\<close>

definition etl_file :: string where
  "etl_file = ''src/churn_ml/etl/customer_churn_etl.py''"

definition handler :: "nat \<times> exn \<Rightarrow> exn" where
  "handler le =
     new_CustomerChurnException (snd le) (Some \<lparr>tb_lineno = fst le, co_filename = etl_file\<rparr>)"

definition try_except :: "(nat \<times> exn) + 'a \<Rightarrow> exn + 'a" where
  "try_except body = (case body of Inl le \<Rightarrow> Inl (handler le) | Inr v \<Rightarrow> Inr v)"

subsection \<open>Configuration\<close>

text \<open>
  The fields \<^verbatim>\<open>__init__\<close> assigns. \<^verbatim>\<open>os.getenv\<close> returns \<open>None\<close> for a variable
  that is not set, so the four strings are optional.
\<close>

record CustomerChurnETL =
  mongodb_url :: "string option"
  data_source :: "string option"
  database :: "string option"
  collection :: "string option"
  ca_file :: string

text \<open>Python's truth value of \<^verbatim>\<open>str | None\<close>: \<open>None\<close> and the empty string are false.\<close>

definition truthy :: "string option \<Rightarrow> bool" where
  "truthy v = (case v of None \<Rightarrow> False | Some s \<Rightarrow> s \<noteq> [])"

text \<open>\<^verbatim>\<open>sep.join(xs)\<close>\<close>

fun join :: "string \<Rightarrow> string list \<Rightarrow> string" where
  "join sep [] = []"
| "join sep [x] = x"
| "join sep (x # y # ys) = x @ sep @ join sep (y # ys)"

text \<open>The dictionary literal of \<^verbatim>\<open>_validate_env\<close>, in insertion order.\<close>

definition required_vars :: "CustomerChurnETL \<Rightarrow> (string \<times> string option) list" where
  "required_vars self =
     [(''MONGODB_URL'', mongodb_url self),
      (''DATA_SOURCE'', data_source self),
      (''MONGODB_DATABASE'', database self),
      (''MONGODB_COLLECTION'', collection self)]"

definition missing_vars :: "CustomerChurnETL \<Rightarrow> string list" where
  "missing_vars self = map fst (filter (\<lambda>kv. \<not> truthy (snd kv)) (required_vars self))"

definition validate_env :: "CustomerChurnETL \<Rightarrow> exn + unit" where
  "validate_env self =
     (if missing_vars self \<noteq> []
      then Inl (ValueError (''Missing required environment variables: '' @
                            join '', '' (missing_vars self)))
      else Inr ())"

text \<open>
  \<^verbatim>\<open>__init__\<close>: \<open>env\<close> is the process environment as \<^verbatim>\<open>os.getenv\<close> reads it and
  \<open>certifi_where\<close> the path \<^verbatim>\<open>certifi.where()\<close> returns. The call of
  \<^verbatim>\<open>_validate_env\<close> is line 47 of the file.
\<close>

definition init :: "(string \<rightharpoonup> string) \<Rightarrow> string \<Rightarrow> exn + CustomerChurnETL" where
  "init env certifi_where =
     (let self = \<lparr>mongodb_url = env ''MONGODB_URL'',
                  data_source = env ''DATA_SOURCE'',
                  database = env ''MONGODB_DATABASE'',
                  collection = env ''MONGODB_COLLECTION'',
                  ca_file = certifi_where\<rparr>
      in try_except
           (case validate_env self of
              Inl e \<Rightarrow> Inl (47, e)
            | Inr _ \<Rightarrow> Inr self))"

definition required_names :: "string list" where
  "required_names = [''MONGODB_URL'', ''DATA_SOURCE'', ''MONGODB_DATABASE'', ''MONGODB_COLLECTION'']"

subsection \<open>Tables\<close>

text \<open>
  A cell of a pandas table as \<^verbatim>\<open>read_csv\<close> produces it: an integer, a float, an
  infinity, the missing value \<open>NaN\<close> or a string. A float is kept as the decimal its
  \<^verbatim>\<open>repr\<close> shows: \<open>CFloat m e\<close> is the number \<open>m * 10 ^ e\<close>; the rounding and the
  range of binary64 are outside the model: every decimal is a float. Boolean columns are
  outside the model too.
\<close>

datatype cell = CInt int | CFloat int int | CPosInf | CNegInf | CNaN | CStr string

text \<open>
  The value under which pandas hashes and compares a cell (in \<^verbatim>\<open>drop_duplicates\<close>
  and in the lookup of \<^verbatim>\<open>Series.map\<close>): \<open>1\<close> and \<open>1.0\<close> are the same key, a
  string is its text, and all missing values are one key.
\<close>

datatype key = KNum rat | KPosInf | KNegInf | KNaN | KStr string

definition pow10 :: "int \<Rightarrow> rat" where
  "pow10 e = (if 0 \<le> e then 10 ^ nat e else 1 / 10 ^ nat (- e))"

fun cell_key :: "cell \<Rightarrow> key" where
  "cell_key (CInt n) = KNum (of_int n)"
| "cell_key (CFloat m e) = KNum (of_int m * pow10 e)"
| "cell_key CPosInf = KPosInf"
| "cell_key CNegInf = KNegInf"
| "cell_key CNaN = KNaN"
| "cell_key (CStr s) = KStr s"




text \<open>
  A row gives every column its cell; a table is its column names, in order, and its rows,
  in order. \<^verbatim>\<open>df.empty\<close> holds when either axis has length zero.
\<close>

type_synonym row = "string \<Rightarrow> cell"

record dataframe =
  columns :: "string list"
  rows :: "row list"

definition df_empty :: "dataframe \<Rightarrow> bool" where
  "df_empty df = (columns df = [] \<or> rows df = [])"

text \<open>
  \<^verbatim>\<open>df.drop_duplicates(subset=[c], keep="first")\<close>: the rows are visited in order with
  the keys seen so far; a row whose key was seen is dropped.
\<close>

fun drop_dups :: "key list \<Rightarrow> string \<Rightarrow> row list \<Rightarrow> row list" where
  "drop_dups seen c [] = []"
| "drop_dups seen c (r # rs) =
     (if cell_key (r c) \<in> set seen then drop_dups seen c rs
      else r # drop_dups (cell_key (r c) # seen) c rs)"

definition drop_duplicates :: "string \<Rightarrow> dataframe \<Rightarrow> dataframe" where
  "drop_duplicates c df = df\<lparr>rows := drop_dups [] c (rows df)\<rparr>"

text \<open>\<^verbatim>\<open>df[c] = f(df[c])\<close> for an elementwise \<open>f\<close>.\<close>

definition assign_column :: "string \<Rightarrow> (cell \<Rightarrow> cell) \<Rightarrow> dataframe \<Rightarrow> dataframe" where
  "assign_column c f df = df\<lparr>rows := map (\<lambda>r. r(c := f (r c))) (rows df)\<rparr>"

text \<open>
  \<^verbatim>\<open>Series.map(d)\<close> for a dictionary \<open>d\<close>: a value that is not a key of \<open>d\<close>
  becomes \<open>NaN\<close>.
\<close>

definition series_map :: "(key \<times> cell) list \<Rightarrow> cell \<Rightarrow> cell" where
  "series_map d c = (case map_of d (cell_key c) of Some v \<Rightarrow> v | None \<Rightarrow> CNaN)"

definition senior_citizen_dict :: "(key \<times> cell) list" where
  "senior_citizen_dict = [(KNum 1, CStr ''Yes''), (KNum 0, CStr ''No'')]"

subsection \<open>Strings and numbers\<close>

text \<open>\<^verbatim>\<open>str(n)\<close> for an integer.\<close>

fun str_nat :: "nat \<Rightarrow> string" where
  "str_nat n =
     (if n < 10 then [char_of (48 + n)] else str_nat (n div 10) @ [char_of (48 + n mod 10)])"

declare str_nat.simps [simp del]

definition str_int :: "int \<Rightarrow> string" where
  "str_int i = (if i < 0 then CHR ''-'' # str_nat (nat (- i)) else str_nat (nat i))"

text \<open>
  \<^verbatim>\<open>str(x)\<close> for a float: the digits without trailing zeros, in positional notation
  when the decimal point falls in \<open>(-4, 16]\<close> and in exponent notation otherwise.
\<close>

definition strip_zeros :: "string \<Rightarrow> string" where
  "strip_zeros ds = rev (dropWhile (\<lambda>c. c = CHR ''0'') (rev ds))"

definition exp_str :: "int \<Rightarrow> string" where
  "exp_str x =
     (if x < 0 then ''-'' else ''+'') @
     (let d = str_nat (nat \<bar>x\<bar>) in if length d < 2 then CHR ''0'' # d else d)"

definition float_repr :: "int \<Rightarrow> int \<Rightarrow> string" where
  "float_repr m e =
     (if m = 0 then ''0.0''
      else
        let every = str_nat (nat \<bar>m\<bar>);
            ds = strip_zeros every;
            decpt = int (length every) + e;
            n = int (length ds)
        in (if m < 0 then ''-'' else []) @
           (if - 4 < decpt \<and> decpt \<le> 16 then
              (if decpt \<le> 0 then ''0.'' @ replicate (nat (- decpt)) (CHR ''0'') @ ds
               else if n \<le> decpt then ds @ replicate (nat (decpt - n)) (CHR ''0'') @ ''.0''
               else take (nat decpt) ds @ ''.'' @ drop (nat decpt) ds)
            else
              take 1 ds @ (if 1 < n then ''.'' @ drop 1 ds else []) @ ''e'' @ exp_str (decpt - 1)))"

text \<open>\<^verbatim>\<open>Series.astype(str)\<close>, elementwise.\<close>

fun astype_str :: "cell \<Rightarrow> cell" where
  "astype_str (CInt n) = CStr (str_int n)"
| "astype_str (CFloat m e) = CStr (float_repr m e)"
| "astype_str CPosInf = CStr ''inf''"
| "astype_str CNegInf = CStr ''-inf''"
| "astype_str CNaN = CStr ''nan''"
| "astype_str (CStr s) = CStr s"

text \<open>
  \<^verbatim>\<open>str.strip()\<close> removes the whitespace at both ends. Characters are code points
  below 256; the whitespace among them is 9 to 13, 28 to 32, 133 and 160.
\<close>

definition is_space :: "char \<Rightarrow> bool" where
  "is_space c =
     (let n = (of_char c :: nat)
      in (9 \<le> n \<and> n \<le> 13) \<or> (28 \<le> n \<and> n \<le> 32) \<or> n = 133 \<or> n = 160)"

definition strip :: "string \<Rightarrow> string" where
  "strip s = rev (dropWhile is_space (rev (dropWhile is_space s)))"

text \<open>\<^verbatim>\<open>Series.str.strip()\<close>, elementwise: an entry that is not a string becomes \<open>NaN\<close>.\<close>

fun str_strip :: "cell \<Rightarrow> cell" where
  "str_strip (CStr s) = CStr (strip s)"
| "str_strip c = CNaN"

text \<open>\<^verbatim>\<open>Series.replace(old, new)\<close>, elementwise.\<close>

definition replace_value :: "cell \<Rightarrow> cell \<Rightarrow> cell \<Rightarrow> cell" where
  "replace_value old new c = (if c = old then new else c)"

text \<open>
  The numeric literals \<^verbatim>\<open>pd.to_numeric\<close> reads from a string: an optional sign,
  digits with an optional fraction (at least one digit in all), an optional exponent
  (\<open>e\<close> or \<open>E\<close>, an optional sign, at least one digit), and nothing after it; or one
  of the words \<open>inf\<close> and \<open>infinity\<close> in any case, with an optional sign. The result
  is the decimal value read, whatever its magnitude (a literal that binary64 cannot
  hold, such as \<open>1e400\<close>, is read as the decimal it writes); which of \<^verbatim>\<open>int64\<close>
  and \<^verbatim>\<open>float64\<close> the resulting column has is not distinguished.
\<close>

definition is_digit :: "char \<Rightarrow> bool" where
  "is_digit c = (48 \<le> (of_char c :: nat) \<and> (of_char c :: nat) \<le> 57)"

definition digits_val :: "string \<Rightarrow> nat" where
  "digits_val ds = foldl (\<lambda>a c. 10 * a + (of_char c - 48)) 0 ds"

definition to_lower :: "char \<Rightarrow> char" where
  "to_lower c =
     (if 65 \<le> (of_char c :: nat) \<and> (of_char c :: nat) \<le> 90
      then char_of (of_char c + (32 :: nat)) else c)"

fun split_sign :: "string \<Rightarrow> bool \<times> string" where
  "split_sign [] = (False, [])"
| "split_sign (c # cs) =
     (if c = CHR ''-'' then (True, cs) else if c = CHR ''+'' then (False, cs) else (False, c # cs))"

definition parse_exponent :: "string \<Rightarrow> int option" where
  "parse_exponent s =
     (case s of
        [] \<Rightarrow> Some 0
      | c # cs \<Rightarrow>
          if c = CHR ''e'' \<or> c = CHR ''E'' then
            (case split_sign cs of
               (neg, ds) \<Rightarrow>
                 if ds \<noteq> [] \<and> list_all is_digit ds
                 then Some (if neg then - int (digits_val ds) else int (digits_val ds))
                 else None)
          else None)"

definition parse_decimal :: "string \<Rightarrow> (int \<times> int) option" where
  "parse_decimal s =
     (case split_sign s of
        (neg, s1) \<Rightarrow>
          let ip = takeWhile is_digit s1;
              r1 = dropWhile is_digit s1;
              dot = (r1 \<noteq> [] \<and> hd r1 = CHR ''.'');
              fp = (if dot then takeWhile is_digit (tl r1) else []);
              r2 = (if dot then dropWhile is_digit (tl r1) else r1)
          in if ip @ fp = [] then None
             else (case parse_exponent r2 of
                     None \<Rightarrow> None
                   | Some x \<Rightarrow>
                       Some ((if neg then - int (digits_val (ip @ fp)) else int (digits_val (ip @ fp))),
                             x - int (length fp))))"


definition to_numeric_str :: "string \<Rightarrow> cell option" where
  "to_numeric_str s =
     (let l = map to_lower s in
      if l = ''inf'' \<or> l = ''+inf'' \<or> l = ''infinity'' \<or> l = ''+infinity'' then Some CPosInf
      else if l = ''-inf'' \<or> l = ''-infinity'' then Some CNegInf
      else (case parse_decimal s of None \<Rightarrow> None | Some (m, e) \<Rightarrow> Some (CFloat m e)))"

text \<open>
  \<^verbatim>\<open>pd.to_numeric(series, errors="coerce")\<close>, elementwise: a string that is not a
  numeric literal becomes \<open>NaN\<close>; an entry that is not a string is kept.
\<close>

fun to_numeric_coerce :: "cell \<Rightarrow> cell" where
  "to_numeric_coerce (CStr s) = (case to_numeric_str s of Some n \<Rightarrow> n | None \<Rightarrow> CNaN)"
| "to_numeric_coerce c = c"

subsection \<open>Extraction\<close>

text \<open>
  The collaborators of \<^verbatim>\<open>extract_data\<close>: \<^verbatim>\<open>kagglehub.dataset_download\<close> returns a
  directory or raises, \<open>listdir\<close> gives the names in a directory, \<^verbatim>\<open>pd.read_csv\<close>
  returns a table or raises.
\<close>

record world =
  dataset_download :: "string option \<Rightarrow> exn + string"
  listdir :: "string \<Rightarrow> string list"
  read_csv :: "string \<Rightarrow> exn + dataframe"

text \<open>\<^verbatim>\<open>list(dataset_dir.glob("*.csv"))\<close>\<close>

definition glob_csv :: "world \<Rightarrow> string \<Rightarrow> string list" where
  "glob_csv w dir = map (\<lambda>n. dir @ ''/'' @ n) (filter (suffix ''.csv'') (listdir w dir))"

definition extract_data :: "CustomerChurnETL \<Rightarrow> world \<Rightarrow> exn + dataframe" where
  "extract_data self w =
     try_except
       (case dataset_download w (data_source self) of
          Inl e \<Rightarrow> Inl (78, e)
        | Inr dataset_dir \<Rightarrow>
            let csv_files = glob_csv w dataset_dir in
            if length csv_files \<noteq> 1
            then Inl (82, ValueError ''Expected exactly one CSV file in dataset directory'')
            else (case read_csv w (csv_files ! 0) of
                    Inl e \<Rightarrow> Inl (84, e)
                  | Inr df \<Rightarrow>
                      if df_empty df then Inl (87, ValueError ''Extracted dataset is empty'')
                      else Inr df))"

subsection \<open>Transformation\<close>

text \<open>A record of \<^verbatim>\<open>df.to_dict(orient="records")\<close>: the columns, in order, with their values.\<close>

type_synonym pyrecord = "(string \<times> cell) list"

definition to_dict_records :: "dataframe \<Rightarrow> pyrecord list" where
  "to_dict_records df = map (\<lambda>r. map (\<lambda>c. (c, r c)) (columns df)) (rows df)"

text \<open>
  \<^verbatim>\<open>transform_data\<close>. Indexing with a column the table does not have raises
  \<^verbatim>\<open>KeyError\<close>: in \<^verbatim>\<open>drop_duplicates\<close> (line 108), in \<^verbatim>\<open>df["SeniorCitizen"]\<close>
  (line 111) and in \<^verbatim>\<open>df["TotalCharges"]\<close> (line 115).
\<close>

definition transform_data :: "dataframe \<Rightarrow> exn + pyrecord list" where
  "transform_data df =
     try_except
       (if df_empty df then Inl (105, ValueError ''Cannot transform an empty DataFrame'')
        else if ''customerID'' \<notin> set (columns df) then Inl (108, KeyError ''customerID'')
        else
          let df1 = drop_duplicates ''customerID'' df in
          if ''SeniorCitizen'' \<notin> set (columns df1) then Inl (111, KeyError ''SeniorCitizen'')
          else
            let df2 = assign_column ''SeniorCitizen'' (series_map senior_citizen_dict) df1 in
            if ''TotalCharges'' \<notin> set (columns df2) then Inl (115, KeyError ''TotalCharges'')
            else
              let df3 = assign_column ''TotalCharges''
                          (\<lambda>c. replace_value (CStr []) CNaN (str_strip (astype_str c))) df2;
                  df4 = assign_column ''TotalCharges'' to_numeric_coerce df3
              in Inr (to_dict_records df4))"

subsection \<open>Loading\<close>

text \<open>
  The document store as \<^verbatim>\<open>load_data\<close> sees it. Each call of the client library
  either raises or succeeds; what it does is the collaborator's. The state records the
  calls made, in order, and the number of clients that were created and not closed.
\<close>

datatype store_call =
    MongoClient "string option" string nat
  | GetDatabase "string option"
  | GetCollection "string option"
  | DeleteMany
  | CreateIndex string
  | InsertMany "pyrecord list"
  | Close

record mongo =
  mongo_client :: "string option \<Rightarrow> string \<Rightarrow> nat \<Rightarrow> exn option"
  get_database :: "string option \<Rightarrow> exn option"
  get_collection :: "string option \<Rightarrow> exn option"
  delete_many :: "exn option"
  create_index :: "string \<Rightarrow> exn option"
  insert_many :: "pyrecord list \<Rightarrow> exn + nat"

record store =
  calls :: "store_call list"
  open_clients :: nat

definition called :: "store_call \<Rightarrow> store \<Rightarrow> store" where
  "called c s = s\<lparr>calls := calls s @ [c]\<rparr>"

text \<open>
  The body of the \<^verbatim>\<open>try\<close> of \<^verbatim>\<open>load_data\<close>, statement by statement.
  \<^verbatim>\<open>insert_many\<close> returns the number of inserted ids.
\<close>

definition load_body ::
  "CustomerChurnETL \<Rightarrow> mongo \<Rightarrow> pyrecord list \<Rightarrow> store \<Rightarrow> ((nat \<times> exn) + nat) \<times> store" where
  "load_body self m records s =
     (if records = [] then (Inr 0, s)
      else
        let s1 = called (MongoClient (mongodb_url self) (ca_file self) 5000) s in
        case mongo_client m (mongodb_url self) (ca_file self) 5000 of
          Some e \<Rightarrow> (Inl (148, e), s1)
        | None \<Rightarrow>
            let s2 = called (GetDatabase (database self)) (s1\<lparr>open_clients := open_clients s1 + 1\<rparr>) in
            case get_database m (database self) of
              Some e \<Rightarrow> (Inl (154, e), s2)
            | None \<Rightarrow>
                let s3 = called (GetCollection (collection self)) s2 in
                case get_collection m (collection self) of
                  Some e \<Rightarrow> (Inl (155, e), s3)
                | None \<Rightarrow>
                    let s4 = called DeleteMany s3 in
                    case delete_many m of
                      Some e \<Rightarrow> (Inl (158, e), s4)
                    | None \<Rightarrow>
                        let s5 = called (CreateIndex ''customerID'') s4 in
                        case create_index m ''customerID'' of
                          Some e \<Rightarrow> (Inl (161, e), s5)
                        | None \<Rightarrow>
                            let s6 = called (InsertMany records) s5 in
                            case insert_many m records of
                              Inl e \<Rightarrow> (Inl (163, e), s6)
                            | Inr inserted_count \<Rightarrow>
                                let s7 = called Close s6 in
                                (Inr inserted_count, s7\<lparr>open_clients := open_clients s7 - 1\<rparr>))"

definition load_data ::
  "CustomerChurnETL \<Rightarrow> mongo \<Rightarrow> pyrecord list \<Rightarrow> store \<Rightarrow> (exn + nat) \<times> store" where
  "load_data self m records s =
     (case load_body self m records s of (r, s') \<Rightarrow> (try_except r, s'))"

subsection \<open>The cleaning of one row\<close>

text \<open>
  What lines 114 to 123 do to one entry of \<^verbatim>\<open>TotalCharges\<close>: string form, strip,
  empty string to \<open>NaN\<close>, numeric parse with \<^verbatim>\<open>errors="coerce"\<close>.
\<close>

definition total_charges_coerce :: "cell \<Rightarrow> cell" where
  "total_charges_coerce c =
     to_numeric_coerce (replace_value (CStr []) CNaN (str_strip (astype_str c)))"

text \<open>What lines 111 to 123 do to one row: the two column assignments.\<close>

definition clean_row :: "row \<Rightarrow> row" where
  "clean_row r =
     r(''SeniorCitizen'' := series_map senior_citizen_dict (r ''SeniorCitizen''),
       ''TotalCharges'' := total_charges_coerce (r ''TotalCharges''))"

text \<open>The key \<^verbatim>\<open>drop_duplicates\<close> compares rows by.\<close>

definition customer_key :: "row \<Rightarrow> key" where
  "customer_key r = cell_key (r ''customerID'')"

section \<open>Properties\<close>

lemma sublist_join: "k \<in> set ks \<Longrightarrow> sublist k (join sep ks)"
proof (induction sep ks rule: join.induct)
  case (1 sep)
  then show ?case by simp
next
  case (2 sep x)
  then show ?case by simp
next
  case (3 sep x y ys)
  show ?case
  proof (cases "k = x")
    case True
    then show ?thesis by simp
  next
    case False
    with 3 have "sublist k (join sep (y # ys))" by simp
    then obtain ps ss where "join sep (y # ys) = ps @ k @ ss"
      by (auto simp: sublist_def)
    then have "join sep (x # y # ys) = (x @ sep @ ps) @ k @ ss" by simp
    then show ?thesis unfolding sublist_def by blast
  qed
qed

subsection \<open>Exceptions and handlers\<close>

lemma try_except_Inl:
  "try_except b = Inl x \<Longrightarrow>
     \<exists>l e. b = Inl (l, e) \<and> x = CustomerChurnException e (Some etl_file) (Some l)"
  by (auto simp: try_except_def handler_def new_CustomerChurnException_def split: sum.splits)

lemma try_except_Inr [simp]: "try_except b = Inr v \<longleftrightarrow> b = Inr v"
  by (auto simp: try_except_def split: sum.splits)

lemma try_except_Inl_simp [simp]:
  "try_except (Inl (l, e)) = Inl (CustomerChurnException e (Some etl_file) (Some l))"
  by (simp add: try_except_def handler_def new_CustomerChurnException_def)

subsection \<open>Configuration\<close>

lemma sublist_prepend: "sublist xs ys \<Longrightarrow> sublist xs (ps @ ys)"
proof -
  assume "sublist xs ys"
  then obtain p q where "ys = p @ xs @ q" by (auto simp: sublist_def)
  then have "ps @ ys = (ps @ p) @ xs @ q" by simp
  then show ?thesis unfolding sublist_def by blast
qed

lemma missing_vars_init:
  "missing_vars \<lparr>mongodb_url = env ''MONGODB_URL'', data_source = env ''DATA_SOURCE'',
      database = env ''MONGODB_DATABASE'', collection = env ''MONGODB_COLLECTION'', ca_file = ca\<rparr>
   = filter (\<lambda>k. \<not> truthy (env k)) required_names"
  by (simp add: missing_vars_def required_vars_def required_names_def)

lemma truthy_iff: "truthy v \<longleftrightarrow> \<not> (v = None \<or> v = Some [])"
  by (auto simp: truthy_def split: option.splits)

text \<open>
  Claim C6. Constructing the ETL object fails if and only if one of the four required
  variables is unset or empty. The failure is the \<^verbatim>\<open>ValueError\<close> of
  \<^verbatim>\<open>_validate_env\<close> wrapped by the handler of \<^verbatim>\<open>__init__\<close>; its message lists the
  missing names, all of them, in the order of the dictionary, and so every missing name
  occurs in the message. On success the object holds the values of the environment.
\<close>

theorem C6_config:
  "((\<exists>x. init env ca = Inl x) \<longleftrightarrow> (\<exists>k \<in> set required_names. env k = None \<or> env k = Some []))
   \<and> (init env ca = Inl x \<longrightarrow>
        x = CustomerChurnException
              (ValueError (''Missing required environment variables: '' @
                 join '', '' (filter (\<lambda>k. env k = None \<or> env k = Some []) required_names)))
              (Some etl_file) (Some 47)
        \<and> (\<exists>msg. error_message x = ValueError msg \<and>
              (\<forall>k \<in> set required_names. env k = None \<or> env k = Some [] \<longrightarrow> sublist k msg)))
   \<and> (init env ca = Inr self \<longrightarrow>
        self = \<lparr>mongodb_url = env ''MONGODB_URL'', data_source = env ''DATA_SOURCE'',
                 database = env ''MONGODB_DATABASE'', collection = env ''MONGODB_COLLECTION'',
                 ca_file = ca\<rparr>)"
proof -
  let ?miss = "filter (\<lambda>k. env k = None \<or> env k = Some []) required_names"
  let ?self = "\<lparr>mongodb_url = env ''MONGODB_URL'', data_source = env ''DATA_SOURCE'',
      database = env ''MONGODB_DATABASE'', collection = env ''MONGODB_COLLECTION'', ca_file = ca\<rparr>"
  have m: "missing_vars ?self = ?miss"
    by (simp add: missing_vars_init truthy_iff)
  have i: "init env ca =
      (if ?miss \<noteq> [] then Inl (CustomerChurnException
              (ValueError (''Missing required environment variables: '' @ join '', '' ?miss))
              (Some etl_file) (Some 47))
       else Inr ?self)"
    unfolding init_def Let_def validate_env_def m by simp
  have e: "?miss \<noteq> [] \<longleftrightarrow> (\<exists>k \<in> set required_names. env k = None \<or> env k = Some [])"
    by (simp add: filter_empty_conv)
  have s: "sublist k (''Missing required environment variables: '' @ join '', '' ?miss)"
    if "k \<in> set required_names" "env k = None \<or> env k = Some []" for k
  proof -
    from that have "k \<in> set ?miss" by simp
    then have "sublist k (join '', '' ?miss)" by (rule sublist_join)
    then show ?thesis by (rule sublist_prepend)
  qed
  show ?thesis
  proof (cases "?miss = []")
    case True
    then have "init env ca = Inr ?self" using i by simp
    moreover from True e have "\<not> (\<exists>k \<in> set required_names. env k = None \<or> env k = Some [])"
      by simp
    ultimately show ?thesis by simp
  next
    case False
    then have l: "init env ca = Inl (CustomerChurnException
              (ValueError (''Missing required environment variables: '' @ join '', '' ?miss))
              (Some etl_file) (Some 47))" using i by simp
    moreover from False e have "\<exists>k \<in> set required_names. env k = None \<or> env k = Some []"
      by simp
    ultimately show ?thesis using s by auto
  qed
qed

text \<open>
  An environment that sets the store address, leaves the data source empty and the two
  names unset: the construction fails and the message names the three of them.
\<close>

theorem C6_config_witness:
  "init [''MONGODB_URL'' \<mapsto> ''mongodb://db'', ''DATA_SOURCE'' \<mapsto> []] ''/etc/ca.pem'' =
     Inl (CustomerChurnException
            (ValueError ''Missing required environment variables: DATA_SOURCE, MONGODB_DATABASE, MONGODB_COLLECTION'')
            (Some etl_file) (Some 47))"
proof -
  let ?env = "[''MONGODB_URL'' \<mapsto> ''mongodb://db'', ''DATA_SOURCE'' \<mapsto> []]"
  have "\<exists>k \<in> set required_names. ?env k = None \<or> ?env k = Some []"
    by (simp add: required_names_def)
  then obtain x where x: "init ?env ''/etc/ca.pem'' = Inl x"
    using C6_config [THEN conjunct1, of ?env "''/etc/ca.pem''"] by blast
  from C6_config [THEN conjunct2, THEN conjunct1, rule_format, OF x]
  have "x = CustomerChurnException
            (ValueError ''Missing required environment variables: DATA_SOURCE, MONGODB_DATABASE, MONGODB_COLLECTION'')
            (Some etl_file) (Some 47)"
    by (simp add: required_names_def)
  with x show ?thesis by simp
qed

subsection \<open>Loading\<close>

text \<open>
  Claim C9. For an empty batch \<^verbatim>\<open>load_data\<close> returns 0 and the store is as it was:
  no call is recorded and no client is created.
\<close>

theorem C9_empty_batch: "load_data self m [] s = (Inr 0, s)"
  by (simp add: load_data_def load_body_def)

text \<open>
  With every collaborator call succeeding, the body runs to its end: the client is closed
  after the insert and the number of open clients is what it was.
\<close>

lemma load_data_success_closes:
  "load_data self
     \<lparr>mongo_client = (\<lambda>_ _ _. None), get_database = (\<lambda>_. None), get_collection = (\<lambda>_. None),
      delete_many = None, create_index = (\<lambda>_. None), insert_many = (\<lambda>rs. Inr (length rs))\<rparr>
     (r # rs) s
   = (Inr (Suc (length rs)),
      s\<lparr>calls := calls s @
           [MongoClient (mongodb_url self) (ca_file self) 5000, GetDatabase (database self),
            GetCollection (collection self), DeleteMany, CreateIndex ''customerID'',
            InsertMany (r # rs), Close],
        open_clients := open_clients s\<rparr>)"
  by (simp add: load_data_def load_body_def called_def Let_def)

text \<open>
  Claim C2. The claim asks that the client be closed on every exit path of a non-empty
  load. The only \<^verbatim>\<open>client.close()\<close> of \<^verbatim>\<open>load_data\<close> is the statement after
  \<^verbatim>\<open>insert_many\<close> inside the \<^verbatim>\<open>try\<close>; the handler does not close. When
  \<^verbatim>\<open>insert_many\<close> raises, the call log ends with the insert, no \<open>Close\<close> is recorded
  and one more client is open than before.
\<close>

theorem C2_insert_failure_leaves_client_open:
  "load_data self
     \<lparr>mongo_client = (\<lambda>_ _ _. None), get_database = (\<lambda>_. None), get_collection = (\<lambda>_. None),
      delete_many = None, create_index = (\<lambda>_. None), insert_many = (\<lambda>_. Inl e)\<rparr>
     (r # rs) s
   = (Inl (CustomerChurnException e (Some etl_file) (Some 163)),
      s\<lparr>calls := calls s @
           [MongoClient (mongodb_url self) (ca_file self) 5000, GetDatabase (database self),
            GetCollection (collection self), DeleteMany, CreateIndex ''customerID'',
            InsertMany (r # rs)],
        open_clients := open_clients s + 1\<rparr>)"
  by (simp add: load_data_def load_body_def called_def Let_def)

lemma load_data_Inl_located:
  "fst (load_data self m recs s) = Inl x \<Longrightarrow>
     \<exists>l e. x = CustomerChurnException e (Some etl_file) (Some l)"
  by (cases "load_body self m recs s") (auto simp: load_data_def dest: try_except_Inl)

subsection \<open>Extraction\<close>

text \<open>
  Claim C7. Once the download has returned a directory: with no file or with several
  files matching \<^verbatim>\<open>*.csv\<close> the extraction fails with the \<^verbatim>\<open>ValueError\<close> of line 82,
  wrapped; with one file whose table has no rows it fails with that of line 87; and
  it returns a table exactly when there is one such file, the parser returns that
  table, and the table is not empty.
\<close>

theorem C7_extract:
  assumes "dataset_download w (data_source self) = Inr dir"
  shows "(length (filter (suffix ''.csv'') (listdir w dir)) \<noteq> 1 \<longrightarrow>
            extract_data self w =
              Inl (CustomerChurnException
                     (ValueError ''Expected exactly one CSV file in dataset directory'')
                     (Some etl_file) (Some 82)))
       \<and> (filter (suffix ''.csv'') (listdir w dir) = [f]
            \<and> read_csv w (dir @ ''/'' @ f) = Inr df \<and> rows df = [] \<longrightarrow>
            extract_data self w =
              Inl (CustomerChurnException (ValueError ''Extracted dataset is empty'')
                     (Some etl_file) (Some 87)))
       \<and> (extract_data self w = Inr df \<longleftrightarrow>
            (\<exists>f. filter (suffix ''.csv'') (listdir w dir) = [f]
               \<and> read_csv w (dir @ ''/'' @ f) = Inr df \<and> \<not> df_empty df))"
proof -
  let ?fs = "filter (suffix ''.csv'') (listdir w dir)"
  have 1: "length ?fs \<noteq> 1 \<longrightarrow>
            extract_data self w =
              Inl (CustomerChurnException
                     (ValueError ''Expected exactly one CSV file in dataset directory'')
                     (Some etl_file) (Some 82))"
    using assms by (simp add: extract_data_def glob_csv_def)
  have one: "extract_data self w =
        try_except (case read_csv w (dir @ ''/'' @ g) of
                    Inl e \<Rightarrow> Inl (84, e)
                  | Inr df \<Rightarrow>
                      if df_empty df then Inl (87, ValueError ''Extracted dataset is empty'')
                      else Inr df)" if "?fs = [g]" for g
    using assms that by (simp add: extract_data_def glob_csv_def)
  have 2: "?fs = [f] \<and> read_csv w (dir @ ''/'' @ f) = Inr df \<and> rows df = [] \<longrightarrow>
            extract_data self w =
              Inl (CustomerChurnException (ValueError ''Extracted dataset is empty'')
                     (Some etl_file) (Some 87))"
    by (auto simp: one df_empty_def)
  have 3: "extract_data self w = Inr df \<longleftrightarrow>
            (\<exists>f. ?fs = [f] \<and> read_csv w (dir @ ''/'' @ f) = Inr df \<and> \<not> df_empty df)"
  proof (cases "length ?fs = 1")
    case False
    then have "extract_data self w \<noteq> Inr df" using 1 by simp
    moreover from False have "\<not> (\<exists>f. ?fs = [f])" by auto
    ultimately show ?thesis by blast
  next
    case True
    then obtain g where g: "?fs = [g]" by (cases ?fs) auto
    show ?thesis
      unfolding one [OF g] g by (auto split: sum.splits if_splits)
  qed
  from 1 2 3 show ?thesis by blast
qed

text \<open>
  A directory with one CSV file and one other file gives the parsed table; a directory
  with two CSV files gives the error.
\<close>

theorem C7_extract_witness:
  "extract_data
     \<lparr>mongodb_url = Some ''mongodb://db'', data_source = Some ''blastchar/telco-customer-churn'',
      database = Some ''churn'', collection = Some ''customers'', ca_file = ''/etc/ca.pem''\<rparr>
     \<lparr>dataset_download = (\<lambda>_. Inr ''/cache''),
      listdir = (\<lambda>_. [''churn.csv'', ''notes.txt'']),
      read_csv = (\<lambda>_. Inr \<lparr>columns = [''customerID''], rows = [\<lambda>_. CStr ''A'']\<rparr>)\<rparr>
   = Inr \<lparr>columns = [''customerID''], rows = [\<lambda>_. CStr ''A'']\<rparr>
   \<and> extract_data
     \<lparr>mongodb_url = Some ''mongodb://db'', data_source = Some ''blastchar/telco-customer-churn'',
      database = Some ''churn'', collection = Some ''customers'', ca_file = ''/etc/ca.pem''\<rparr>
     \<lparr>dataset_download = (\<lambda>_. Inr ''/cache''),
      listdir = (\<lambda>_. [''a.csv'', ''b.csv'']),
      read_csv = (\<lambda>_. Inr \<lparr>columns = [''customerID''], rows = [\<lambda>_. CStr ''A'']\<rparr>)\<rparr>
   = Inl (CustomerChurnException
            (ValueError ''Expected exactly one CSV file in dataset directory'')
            (Some etl_file) (Some 82))"
proof -
  let ?self = "\<lparr>mongodb_url = Some ''mongodb://db'', data_source = Some ''blastchar/telco-customer-churn'',
      database = Some ''churn'', collection = Some ''customers'', ca_file = ''/etc/ca.pem''\<rparr>"
  let ?df = "\<lparr>columns = [''customerID''], rows = [\<lambda>_. CStr ''A'']\<rparr>"
  let ?w1 = "\<lparr>dataset_download = (\<lambda>_. Inr ''/cache''),
      listdir = (\<lambda>_. [''churn.csv'', ''notes.txt'']), read_csv = (\<lambda>_. Inr ?df)\<rparr>"
  let ?w2 = "\<lparr>dataset_download = (\<lambda>_. Inr ''/cache''),
      listdir = (\<lambda>_. [''a.csv'', ''b.csv'']), read_csv = (\<lambda>_. Inr ?df)\<rparr>"
  have d1: "dataset_download ?w1 (data_source ?self) = Inr ''/cache''" by simp
  have d2: "dataset_download ?w2 (data_source ?self) = Inr ''/cache''" by simp
  have "extract_data ?self ?w1 = Inr ?df"
    using C7_extract [OF d1, of _ ?df] by (simp add: suffix_to_prefix df_empty_def)
  moreover have "extract_data ?self ?w2 = Inl (CustomerChurnException
            (ValueError ''Expected exactly one CSV file in dataset directory'')
            (Some etl_file) (Some 82))"
    using C7_extract [OF d2] by (simp add: suffix_to_prefix)
  ultimately show ?thesis by simp
qed

subsection \<open>Transformation: failure\<close>

text \<open>
  Claim C8. A table without rows makes \<^verbatim>\<open>transform_data\<close> fail with the
  \<^verbatim>\<open>ValueError\<close> of line 105, wrapped. For every table the result is either an
  exception or the whole batch: one record for every row that deduplication keeps, each
  with all the columns of the table.
\<close>

theorem C8_empty_table:
  "(rows df = [] \<longrightarrow>
      transform_data df =
        Inl (CustomerChurnException (ValueError ''Cannot transform an empty DataFrame'')
               (Some etl_file) (Some 105)))
   \<and> ((\<exists>x. transform_data df = Inl x)
       \<or> (\<exists>b. transform_data df = Inr b
              \<and> length b = length (drop_dups [] ''customerID'' (rows df))
              \<and> list_all (\<lambda>r. map fst r = columns df) b))"
proof -
  have 1: "rows df = [] \<longrightarrow>
      transform_data df =
        Inl (CustomerChurnException (ValueError ''Cannot transform an empty DataFrame'')
               (Some etl_file) (Some 105))"
    by (simp add: transform_data_def df_empty_def)
  have 2: "(\<exists>x. transform_data df = Inl x)
       \<or> (\<exists>b. transform_data df = Inr b
              \<and> length b = length (drop_dups [] ''customerID'' (rows df))
              \<and> list_all (\<lambda>r. map fst r = columns df) b)"
    by (simp add: transform_data_def Let_def to_dict_records_def assign_column_def
        drop_duplicates_def list_all_iff comp_def)
  from 1 2 show ?thesis by blast
qed

theorem C8_empty_table_witness:
  "transform_data \<lparr>columns = [''customerID'', ''SeniorCitizen'', ''TotalCharges''], rows = []\<rparr> =
     Inl (CustomerChurnException (ValueError ''Cannot transform an empty DataFrame'')
            (Some etl_file) (Some 105))"
  using C8_empty_table [THEN conjunct1,
      of "\<lparr>columns = [''customerID'', ''SeniorCitizen'', ''TotalCharges''], rows = []\<rparr>"]
  by simp

subsection \<open>Source location of failures\<close>

text \<open>
  Claim C10. Constructed while no exception is handled, the exception has neither a file
  name nor a line number; constructed with a traceback, it takes both from it. Every
  failure of \<^verbatim>\<open>__init__\<close>, \<^verbatim>\<open>extract_data\<close>, \<^verbatim>\<open>transform_data\<close> and
  \<^verbatim>\<open>load_data\<close> is constructed inside a handler and carries the file and a line.
\<close>

theorem C10_exception_location:
  "(file_name (new_CustomerChurnException e None) = None
      \<and> lineno (new_CustomerChurnException e None) = None)
   \<and> (file_name (new_CustomerChurnException e (Some tb)) = Some (co_filename tb)
      \<and> lineno (new_CustomerChurnException e (Some tb)) = Some (tb_lineno tb))
   \<and> error_message (new_CustomerChurnException e exc_tb) = e
   \<and> (init env ca = Inl x \<longrightarrow> file_name x = Some etl_file \<and> lineno x \<noteq> None)
   \<and> (extract_data self w = Inl x \<longrightarrow> file_name x = Some etl_file \<and> lineno x \<noteq> None)
   \<and> (transform_data df = Inl x \<longrightarrow> file_name x = Some etl_file \<and> lineno x \<noteq> None)
   \<and> (fst (load_data self m recs s) = Inl x \<longrightarrow> file_name x = Some etl_file \<and> lineno x \<noteq> None)"
proof -
  have a: "file_name y = Some etl_file \<and> lineno y \<noteq> None" if "try_except b = Inl y"
    for b :: "(nat \<times> exn) + 'a" and y
    using try_except_Inl [OF that] by auto
  have 1: "init env ca = Inl x \<longrightarrow> file_name x = Some etl_file \<and> lineno x \<noteq> None"
    unfolding init_def Let_def by (blast dest: a)
  have 2: "extract_data self w = Inl x \<longrightarrow> file_name x = Some etl_file \<and> lineno x \<noteq> None"
    unfolding extract_data_def by (blast dest: a)
  have 3: "transform_data df = Inl x \<longrightarrow> file_name x = Some etl_file \<and> lineno x \<noteq> None"
    unfolding transform_data_def by (blast dest: a)
  have 4: "fst (load_data self m recs s) = Inl x \<longrightarrow> file_name x = Some etl_file \<and> lineno x \<noteq> None"
    using load_data_Inl_located [of self m recs s x] by auto
  have 5: "error_message (new_CustomerChurnException e exc_tb) = e"
    by (cases exc_tb) (simp_all add: new_CustomerChurnException_def)
  show ?thesis
    using 1 2 3 4 5 by (simp add: new_CustomerChurnException_def)
qed

theorem C10_exception_location_witness:
  "transform_data \<lparr>columns = [''customerID''], rows = []\<rparr> =
     Inl (CustomerChurnException (ValueError ''Cannot transform an empty DataFrame'')
            (Some etl_file) (Some 105))
   \<and> file_name (CustomerChurnException (ValueError ''Cannot transform an empty DataFrame'')
            (Some etl_file) (Some 105)) = Some etl_file"
proof -
  have t: "transform_data \<lparr>columns = [''customerID''], rows = []\<rparr> =
     Inl (CustomerChurnException (ValueError ''Cannot transform an empty DataFrame'')
            (Some etl_file) (Some 105))"
    by (simp add: transform_data_def df_empty_def)
  from C10_exception_location [THEN conjunct2, THEN conjunct2, THEN conjunct2, THEN conjunct2,
      THEN conjunct2, THEN conjunct1, rule_format, OF t]
  show ?thesis using t by simp
qed

subsection \<open>Stripping\<close>



subsection \<open>Deduplication\<close>

lemma drop_dups_subseq: "subseq (drop_dups seen c rs) rs"
  by (induction rs arbitrary: seen) auto

lemma drop_dups_keys:
  "set (map (\<lambda>r. cell_key (r c)) (drop_dups seen c rs)) = set (map (\<lambda>r. cell_key (r c)) rs) - set seen"
  by (induction rs arbitrary: seen) auto

lemma drop_dups_distinct: "distinct (map (\<lambda>r. cell_key (r c)) (drop_dups seen c rs))"
proof (induction rs arbitrary: seen)
  case Nil
  then show ?case by simp
next
  case (Cons r rs)
  have "cell_key (r c) \<notin> set (map (\<lambda>r. cell_key (r c)) (drop_dups (cell_key (r c) # seen) c rs))"
    unfolding drop_dups_keys by simp
  with Cons show ?case by simp
qed

lemma drop_dups_first:
  "r \<in> set (drop_dups seen c rs) \<Longrightarrow> find (\<lambda>x. cell_key (x c) = cell_key (r c)) rs = Some r"
proof (induction rs arbitrary: seen)
  case Nil
  then show ?case by simp
next
  case (Cons x xs)
  show ?case
  proof (cases "cell_key (x c) \<in> set seen")
    case True
    with Cons.prems have m: "r \<in> set (drop_dups seen c xs)" by simp
    then have "cell_key (r c) \<in> set (map (\<lambda>r. cell_key (r c)) (drop_dups seen c xs))" by simp
    then have "cell_key (r c) \<notin> set seen" unfolding drop_dups_keys by simp
    with True have "cell_key (x c) \<noteq> cell_key (r c)" by auto
    with Cons.IH [OF m] show ?thesis by simp
  next
    case False
    with Cons.prems have "r = x \<or> r \<in> set (drop_dups (cell_key (x c) # seen) c xs)" by auto
    then show ?thesis
    proof
      assume "r = x"
      then show ?thesis by simp
    next
      assume m: "r \<in> set (drop_dups (cell_key (x c) # seen) c xs)"
      then have "cell_key (r c) \<in> set (map (\<lambda>r. cell_key (r c)) (drop_dups (cell_key (x c) # seen) c xs))"
        by simp
      then have "cell_key (x c) \<noteq> cell_key (r c)" unfolding drop_dups_keys by auto
      with Cons.IH [OF m] show ?thesis by simp
    qed
  qed
qed

subsection \<open>Transformation: the batch\<close>

text \<open>
  \<^verbatim>\<open>transform_data\<close> returns a batch exactly for a non-empty table that has the three
  columns, and the batch is the cleaned rows that deduplication keeps, in order, each as
  a record over the columns of the table.
\<close>

lemma transform_data_Inr:
  "transform_data df = Inr b \<longleftrightarrow>
     \<not> df_empty df \<and> ''customerID'' \<in> set (columns df) \<and> ''SeniorCitizen'' \<in> set (columns df)
     \<and> ''TotalCharges'' \<in> set (columns df)
     \<and> b = map (\<lambda>r. map (\<lambda>c. (c, clean_row r c)) (columns df))
             (drop_dups [] ''customerID'' (rows df))"
  by (auto simp: transform_data_def Let_def to_dict_records_def assign_column_def
      drop_duplicates_def comp_def clean_row_def total_charges_coerce_def fun_upd_def)

lemma map_of_record:
  "c \<in> set cols \<Longrightarrow> map_of (map (\<lambda>c. (c, f c)) cols) c = Some (f c)"
  by (induction cols) auto

lemma series_map_senior:
  "series_map senior_citizen_dict v =
     (if cell_key v = KNum 1 then CStr ''Yes''
      else if cell_key v = KNum 0 then CStr ''No'' else CNaN)"
  by (simp add: series_map_def senior_citizen_dict_def)

lemma total_charges_coerce_not_str: "total_charges_coerce c \<noteq> CStr s"
proof -
  have n: "to_numeric_str t \<noteq> Some (CStr s)" for t
    by (auto simp: to_numeric_str_def Let_def split: option.splits)
  have "to_numeric_coerce (replace_value (CStr []) CNaN (CStr t)) \<noteq> CStr s" for t
    using n [of t] by (auto simp: replace_value_def split: option.splits)
  moreover have "\<exists>t. str_strip (astype_str c) = CStr t"
    by (cases c) simp_all
  ultimately show ?thesis by (auto simp: total_charges_coerce_def)
qed


text \<open>
  Claim C4. The rows behind the batch are a subsequence of the rows of the table (their
  order and their values are the table's), they have pairwise different keys, every key
  of the table is among them, and each is the first row of the table with its key. The
  batch is these rows, cleaned, and its \<^verbatim>\<open>customerID\<close> values are theirs.
\<close>

theorem C4_dedup:
  assumes "transform_data df = Inr b"
  shows "\<exists>kept. subseq kept (rows df)
      \<and> distinct (map customer_key kept)
      \<and> set (map customer_key kept) = set (map customer_key (rows df))
      \<and> (\<forall>r \<in> set kept. find (\<lambda>x. customer_key x = customer_key r) (rows df) = Some r)
      \<and> b = map (\<lambda>r. map (\<lambda>c. (c, clean_row r c)) (columns df)) kept
      \<and> map (\<lambda>r. map_of r ''customerID'') b = map (\<lambda>r. Some (r ''customerID'')) kept"
proof -
  let ?kept = "drop_dups [] ''customerID'' (rows df)"
  from assms have c: "''customerID'' \<in> set (columns df)"
    and b: "b = map (\<lambda>r. map (\<lambda>c. (c, clean_row r c)) (columns df)) ?kept"
    by (simp_all add: transform_data_Inr)
  have k: "customer_key = (\<lambda>r. cell_key (r ''customerID''))"
    by (simp add: customer_key_def fun_eq_iff)
  have 1: "subseq ?kept (rows df)" by (rule drop_dups_subseq)
  have 2: "distinct (map customer_key ?kept)" unfolding k by (rule drop_dups_distinct)
  have 3: "set (map customer_key ?kept) = set (map customer_key (rows df))"
    unfolding k drop_dups_keys by simp
  have 4: "\<forall>r \<in> set ?kept. find (\<lambda>x. customer_key x = customer_key r) (rows df) = Some r"
    unfolding k by (blast intro: drop_dups_first)
  have 5: "map (\<lambda>r. map_of r ''customerID'') b = map (\<lambda>r. Some (r ''customerID'')) ?kept"
    using c by (simp add: b comp_def map_of_record clean_row_def)
  from 1 2 3 4 5 b show ?thesis by blast
qed

text \<open>
  Rows A, A, B: the batch is the first A and the B.
\<close>

theorem C4_dedup_witness:
  "transform_data
     \<lparr>columns = [''customerID'', ''SeniorCitizen'', ''TotalCharges''],
      rows = [(\<lambda>_. CNaN)(''customerID'' := CStr ''A'', ''SeniorCitizen'' := CInt 1,
                          ''TotalCharges'' := CStr ''10.5''),
              (\<lambda>_. CNaN)(''customerID'' := CStr ''A'', ''SeniorCitizen'' := CInt 0,
                          ''TotalCharges'' := CStr ''99''),
              (\<lambda>_. CNaN)(''customerID'' := CStr ''B'', ''SeniorCitizen'' := CInt 1,
                          ''TotalCharges'' := CStr ''7'')]\<rparr>
   = Inr [[(''customerID'', CStr ''A''), (''SeniorCitizen'', CStr ''Yes''),
           (''TotalCharges'', CFloat 105 (- 1))],
          [(''customerID'', CStr ''B''), (''SeniorCitizen'', CStr ''Yes''),
           (''TotalCharges'', CFloat 7 0)]]
   \<and> (\<exists>kept. map (\<lambda>r. Some (r ''customerID'')) kept = [Some (CStr ''A''), Some (CStr ''B'')]
          \<and> distinct (map customer_key kept))"
proof -
  let ?df = "\<lparr>columns = [''customerID'', ''SeniorCitizen'', ''TotalCharges''],
      rows = [(\<lambda>_. CNaN)(''customerID'' := CStr ''A'', ''SeniorCitizen'' := CInt 1,
                          ''TotalCharges'' := CStr ''10.5''),
              (\<lambda>_. CNaN)(''customerID'' := CStr ''A'', ''SeniorCitizen'' := CInt 0,
                          ''TotalCharges'' := CStr ''99''),
              (\<lambda>_. CNaN)(''customerID'' := CStr ''B'', ''SeniorCitizen'' := CInt 1,
                          ''TotalCharges'' := CStr ''7'')]\<rparr>"
  let ?b = "[[(''customerID'', CStr ''A''), (''SeniorCitizen'', CStr ''Yes''),
           (''TotalCharges'', CFloat 105 (- 1))],
          [(''customerID'', CStr ''B''), (''SeniorCitizen'', CStr ''Yes''),
           (''TotalCharges'', CFloat 7 0)]]"
  have t: "transform_data ?df = Inr ?b" by code_simp
  from C4_dedup [OF t] obtain kept where
    "distinct (map customer_key kept)"
    "map (\<lambda>r. map_of r ''customerID'') ?b = map (\<lambda>r. Some (r ''customerID'')) kept"
    by blast
  then have "map (\<lambda>r. Some (r ''customerID'')) kept = [Some (CStr ''A''), Some (CStr ''B'')]
      \<and> distinct (map customer_key kept)"
    by simp
  then have e: "\<exists>kept. map (\<lambda>r. Some (r ''customerID'')) kept = [Some (CStr ''A''), Some (CStr ''B'')]
      \<and> distinct (map customer_key kept)" ..
  from t e show ?thesis by (rule conjI)
qed

text \<open>
  Claim C1, as the code has it. The \<^verbatim>\<open>SeniorCitizen\<close> value of the i-th record is
  \<open>Yes\<close> where the i-th kept row has 1, \<open>No\<close> where it has 0, and the missing value
  \<open>NaN\<close> for every other raw value: \<^verbatim>\<open>Series.map\<close> with a dictionary does not pass
  a value through that is not one of its keys.
\<close>

theorem C1_senior_citizen:
  assumes "transform_data df = Inr b"
  shows "length b = length (drop_dups [] ''customerID'' (rows df))
    \<and> (\<forall>i < length b.
          map_of (b ! i) ''SeniorCitizen'' =
            Some (let v = (drop_dups [] ''customerID'' (rows df) ! i) ''SeniorCitizen''
                  in if cell_key v = KNum 1 then CStr ''Yes''
                     else if cell_key v = KNum 0 then CStr ''No''
                     else CNaN))"
proof -
  let ?kept = "drop_dups [] ''customerID'' (rows df)"
  from assms have s: "''SeniorCitizen'' \<in> set (columns df)"
    and b: "b = map (\<lambda>r. map (\<lambda>c. (c, clean_row r c)) (columns df)) ?kept"
    by (simp_all add: transform_data_Inr)
  have "map_of (b ! i) ''SeniorCitizen'' =
      Some (series_map senior_citizen_dict ((?kept ! i) ''SeniorCitizen''))" if "i < length b" for i
    using that s by (simp add: b map_of_record clean_row_def)
  then show ?thesis by (simp add: b series_map_senior Let_def)
qed

text \<open>Raw values 1, 0 and 2 give \<open>Yes\<close>, \<open>No\<close> and \<open>NaN\<close>.\<close>

theorem C1_senior_citizen_witness:
  "transform_data
     \<lparr>columns = [''customerID'', ''SeniorCitizen'', ''TotalCharges''],
      rows = [(\<lambda>_. CNaN)(''customerID'' := CStr ''A'', ''SeniorCitizen'' := CInt 1,
                          ''TotalCharges'' := CStr ''10.5''),
              (\<lambda>_. CNaN)(''customerID'' := CStr ''B'', ''SeniorCitizen'' := CInt 0,
                          ''TotalCharges'' := CStr ''20''),
              (\<lambda>_. CNaN)(''customerID'' := CStr ''C'', ''SeniorCitizen'' := CInt 2,
                          ''TotalCharges'' := CStr ''30'')]\<rparr>
   = Inr [[(''customerID'', CStr ''A''), (''SeniorCitizen'', CStr ''Yes''),
           (''TotalCharges'', CFloat 105 (- 1))],
          [(''customerID'', CStr ''B''), (''SeniorCitizen'', CStr ''No''),
           (''TotalCharges'', CFloat 20 0)],
          [(''customerID'', CStr ''C''), (''SeniorCitizen'', CNaN),
           (''TotalCharges'', CFloat 30 0)]]
   \<and> map_of [(''customerID'', CStr ''C''), (''SeniorCitizen'', CNaN),
              (''TotalCharges'', CFloat 30 0)] ''SeniorCitizen'' = Some CNaN"
proof -
  let ?df = "\<lparr>columns = [''customerID'', ''SeniorCitizen'', ''TotalCharges''],
      rows = [(\<lambda>_. CNaN)(''customerID'' := CStr ''A'', ''SeniorCitizen'' := CInt 1,
                          ''TotalCharges'' := CStr ''10.5''),
              (\<lambda>_. CNaN)(''customerID'' := CStr ''B'', ''SeniorCitizen'' := CInt 0,
                          ''TotalCharges'' := CStr ''20''),
              (\<lambda>_. CNaN)(''customerID'' := CStr ''C'', ''SeniorCitizen'' := CInt 2,
                          ''TotalCharges'' := CStr ''30'')]\<rparr>"
  let ?b = "[[(''customerID'', CStr ''A''), (''SeniorCitizen'', CStr ''Yes''),
           (''TotalCharges'', CFloat 105 (- 1))],
          [(''customerID'', CStr ''B''), (''SeniorCitizen'', CStr ''No''),
           (''TotalCharges'', CFloat 20 0)],
          [(''customerID'', CStr ''C''), (''SeniorCitizen'', CNaN),
           (''TotalCharges'', CFloat 30 0)]]"
  have t: "transform_data ?df = Inr ?b" by code_simp
  from C1_senior_citizen [OF t, THEN conjunct2, rule_format, of 2]
  have "map_of (?b ! 2) ''SeniorCitizen'' = Some CNaN" by simp
  with t show ?thesis by simp
qed

text \<open>
  The claim as stated fails: the raw value 2 is outside 0 and 1, and the record holds
  \<open>NaN\<close>, not 2.
\<close>

theorem C1_senior_citizen_counterexample:
  "transform_data
     \<lparr>columns = [''customerID'', ''SeniorCitizen'', ''TotalCharges''],
      rows = [(\<lambda>_. CNaN)(''customerID'' := CStr ''A'', ''SeniorCitizen'' := CInt 2,
                          ''TotalCharges'' := CStr ''10.5'')]\<rparr>
   = Inr [[(''customerID'', CStr ''A''), (''SeniorCitizen'', CNaN),
           (''TotalCharges'', CFloat 105 (- 1))]]
   \<and> CNaN \<noteq> CInt 2"
  by code_simp

text \<open>
  Claim C3, as the code has it. In a batch the \<^verbatim>\<open>customerID\<close> values are pairwise
  different (as keys, hence as values), \<^verbatim>\<open>SeniorCitizen\<close> is \<open>Yes\<close>, \<open>No\<close> or
  \<open>NaN\<close>, and \<^verbatim>\<open>TotalCharges\<close> is never a string.
\<close>

theorem C3_batch_invariant:
  assumes "transform_data df = Inr b"
  shows "distinct (map (\<lambda>r. map_option cell_key (map_of r ''customerID'')) b)
    \<and> (\<forall>r \<in> set b. map_of r ''SeniorCitizen'' = Some (CStr ''Yes'')
                    \<or> map_of r ''SeniorCitizen'' = Some (CStr ''No'')
                    \<or> map_of r ''SeniorCitizen'' = Some CNaN)
    \<and> (\<forall>r \<in> set b. \<exists>v. map_of r ''TotalCharges'' = Some v \<and> (\<forall>s. v \<noteq> CStr s))"
proof -
  let ?kept = "drop_dups [] ''customerID'' (rows df)"
  let ?rec = "\<lambda>r. map (\<lambda>c. (c, clean_row r c)) (columns df)"
  from assms have c: "''customerID'' \<in> set (columns df)"
    and s: "''SeniorCitizen'' \<in> set (columns df)"
    and t: "''TotalCharges'' \<in> set (columns df)"
    and b: "b = map ?rec ?kept"
    by (simp_all add: transform_data_Inr)
  have k: "map_option cell_key (map_of (?rec r) ''customerID'') = Some (cell_key (r ''customerID''))" for r
    using c by (simp add: map_of_record clean_row_def)
  have e: "map (\<lambda>r. map_option cell_key (map_of r ''customerID'')) b
      = map Some (map (\<lambda>r. cell_key (r ''customerID'')) ?kept)"
    by (simp add: b k comp_def)
  have "distinct (map Some (map (\<lambda>r. cell_key (r ''customerID'')) ?kept))"
    by (rule iffD2 [OF distinct_map]) (simp add: drop_dups_distinct inj_on_def)
  then have 1: "distinct (map (\<lambda>r. map_option cell_key (map_of r ''customerID'')) b)"
    unfolding e .
  have 2: "map_of (?rec r) ''SeniorCitizen'' = Some (CStr ''Yes'')
         \<or> map_of (?rec r) ''SeniorCitizen'' = Some (CStr ''No'')
         \<or> map_of (?rec r) ''SeniorCitizen'' = Some CNaN" for r
    using s by (simp add: map_of_record clean_row_def series_map_senior)
  have 3: "\<exists>v. map_of (?rec r) ''TotalCharges'' = Some v \<and> (\<forall>s. v \<noteq> CStr s)" for r
    using t by (simp add: map_of_record clean_row_def total_charges_coerce_not_str)
  from 1 2 3 show ?thesis unfolding b by auto
qed

theorem C3_batch_invariant_witness:
  "transform_data
     \<lparr>columns = [''customerID'', ''SeniorCitizen'', ''TotalCharges''],
      rows = [(\<lambda>_. CNaN)(''customerID'' := CStr ''A'', ''SeniorCitizen'' := CInt 1,
                          ''TotalCharges'' := CStr ''10.5''),
              (\<lambda>_. CNaN)(''customerID'' := CStr ''A'', ''SeniorCitizen'' := CInt 0,
                          ''TotalCharges'' := CStr []),
              (\<lambda>_. CNaN)(''customerID'' := CStr ''B'', ''SeniorCitizen'' := CInt 1,
                          ''TotalCharges'' := CStr ''bad'')]\<rparr>
   = Inr [[(''customerID'', CStr ''A''), (''SeniorCitizen'', CStr ''Yes''),
           (''TotalCharges'', CFloat 105 (- 1))],
          [(''customerID'', CStr ''B''), (''SeniorCitizen'', CStr ''Yes''),
           (''TotalCharges'', CNaN)]]
   \<and> distinct (map (\<lambda>r. map_option cell_key (map_of r ''customerID''))
        [[(''customerID'', CStr ''A''), (''SeniorCitizen'', CStr ''Yes''),
           (''TotalCharges'', CFloat 105 (- 1))],
          [(''customerID'', CStr ''B''), (''SeniorCitizen'', CStr ''Yes''),
           (''TotalCharges'', CNaN)]])"
proof -
  let ?df = "\<lparr>columns = [''customerID'', ''SeniorCitizen'', ''TotalCharges''],
      rows = [(\<lambda>_. CNaN)(''customerID'' := CStr ''A'', ''SeniorCitizen'' := CInt 1,
                          ''TotalCharges'' := CStr ''10.5''),
              (\<lambda>_. CNaN)(''customerID'' := CStr ''A'', ''SeniorCitizen'' := CInt 0,
                          ''TotalCharges'' := CStr []),
              (\<lambda>_. CNaN)(''customerID'' := CStr ''B'', ''SeniorCitizen'' := CInt 1,
                          ''TotalCharges'' := CStr ''bad'')]\<rparr>"
  let ?b = "[[(''customerID'', CStr ''A''), (''SeniorCitizen'', CStr ''Yes''),
           (''TotalCharges'', CFloat 105 (- 1))],
          [(''customerID'', CStr ''B''), (''SeniorCitizen'', CStr ''Yes''),
           (''TotalCharges'', CNaN)]]"
  have t: "transform_data ?df = Inr ?b" by code_simp
  from C3_batch_invariant [OF t, THEN conjunct1] t show ?thesis by (rule_tac conjI)
qed

text \<open>
  The claim as stated fails: a row whose raw \<^verbatim>\<open>SeniorCitizen\<close> is the text \<open>yes\<close>
  gives a record whose \<^verbatim>\<open>SeniorCitizen\<close> is \<open>NaN\<close>, neither \<open>Yes\<close> nor \<open>No\<close>.
\<close>

theorem C3_batch_invariant_counterexample:
  "transform_data
     \<lparr>columns = [''customerID'', ''SeniorCitizen'', ''TotalCharges''],
      rows = [(\<lambda>_. CNaN)(''customerID'' := CStr ''A'', ''SeniorCitizen'' := CInt 1,
                          ''TotalCharges'' := CStr ''10.5''),
              (\<lambda>_. CNaN)(''customerID'' := CStr ''B'', ''SeniorCitizen'' := CStr ''yes'',
                          ''TotalCharges'' := CStr ''20'')]\<rparr>
   = Inr [[(''customerID'', CStr ''A''), (''SeniorCitizen'', CStr ''Yes''),
           (''TotalCharges'', CFloat 105 (- 1))],
          [(''customerID'', CStr ''B''), (''SeniorCitizen'', CNaN),
           (''TotalCharges'', CFloat 20 0)]]
   \<and> CNaN \<noteq> CStr ''Yes'' \<and> CNaN \<noteq> CStr ''No''"
  by code_simp

subsection \<open>Digit strings\<close>













subsection \<open>Reading a numeric literal\<close>













subsection \<open>Writing a float and reading it back\<close>







subsection \<open>The coercion of one entry\<close>













end
